theory Spec2Isabelle
  imports Complex_Main
begin

section \<open>React element trees\<close>

text \<open>
  The two source files build React element trees with JSX. An element has a type, a list
  of attributes in the order they are written, and a list of children. A tag written in
  lower case (\<open>svg\<close>, \<open>path\<close>, \<open>link\<close>, \<open>meta\<close>) is an intrinsic element named by a string;
  a capitalised tag (\<open>Cards\<close>, \<open>Card\<close>, \<open>Image\<close>) is a reference to an imported component,
  kept here with the module it is imported from. \<open><>...</>\<close> is a fragment. An attribute
  value is a string literal, a number in braces, or a node in braces.
\<close>

datatype elem_type =
    Intrinsic string
  | Component string string

datatype attr_value =
    Str string
  | Num rat
  | Node node
and node =
    Null
  | Text string
  | Element elem_type "(string \<times> attr_value) list" "node list"
  | Fragment "node list"

text \<open>Reading an element: its type, an attribute by name, its children.\<close>

fun type_of :: "node \<Rightarrow> elem_type option" where
  "type_of (Element ty attrs kids) = Some ty"
| "type_of Null = None"
| "type_of (Text s) = None"
| "type_of (Fragment kids) = None"

fun attr :: "string \<Rightarrow> node \<Rightarrow> attr_value option" where
  "attr name (Element ty attrs kids) = map_of attrs name"
| "attr name Null = None"
| "attr name (Text s) = None"
| "attr name (Fragment kids) = None"

fun children :: "node \<Rightarrow> node list" where
  "children (Element ty attrs kids) = kids"
| "children (Fragment kids) = kids"
| "children Null = []"
| "children (Text s) = []"

section \<open>src/components/link-card.tsx\<close>

text \<open>\<open>import { Card, Cards } from "nextra-theme-docs"\<close>\<close>

definition Card :: elem_type where
  "Card = Component ''nextra-theme-docs'' ''Card''"

definition Cards :: elem_type where
  "Cards = Component ''nextra-theme-docs'' ''Cards''"

text \<open>The constant \<open>defaultIcon\<close>: an \<open>svg\<close> element with one \<open>path\<close> child.\<close>

definition defaultIcon :: node where
  "defaultIcon =
     Element (Intrinsic ''svg'')
       [(''xmlns'', Str ''http://www.w3.org/2000/svg''),
        (''fill'', Str ''none''),
        (''viewBox'', Str ''0 0 24 24''),
        (''strokeWidth'', Num (3 / 2)),
        (''stroke'', Str ''currentColor''),
        (''className'', Str ''w-6 h-6'')]
       [Element (Intrinsic ''path'')
          [(''strokeLinecap'', Str ''round''),
           (''strokeLinejoin'', Str ''round''),
           (''d'', Str ''M8.25 4.5l7.5 7.5-7.5 7.5'')]
          []]"

text \<open>
  The props of \<open>LinkCard\<close>: \<open>icon?: React.ReactNode; path: string; title: string\<close>.
  An omitted (\<open>undefined\<close>) \<open>icon\<close> is \<open>None\<close>; \<open>Some Null\<close> is an explicit \<open>null\<close>, for
  which a default parameter value is not used.
\<close>

record LinkCardProps =
  icon :: "node option"
  path :: string
  title :: string

text \<open>
  \<open>LinkCard = ({ icon = defaultIcon, path, title }) =>
     <Cards><Card icon={icon} title={title} href={path}><></></Card></Cards>\<close>
\<close>

definition LinkCard :: "LinkCardProps \<Rightarrow> node" where
  "LinkCard props =
     (let icon' = (case icon props of None \<Rightarrow> defaultIcon | Some i \<Rightarrow> i) in
      Element Cards []
        [Element Card
           [(''icon'', Node icon'), (''title'', Str (title props)), (''href'', Str (path props))]
           [Fragment []]])"

section \<open>src/theme.config.tsx\<close>

text \<open>\<open>import Image from "next/image"\<close>\<close>

definition Image :: elem_type where
  "Image = Component ''next/image'' ''Image''"

text \<open>
  The footer text is a template literal with a number in it. JavaScript converts the number
  to a string with \<open>ToString\<close>: for an integer below \<open>10^21\<close> in magnitude (every year a
  \<open>Date\<close> can hold is) that is its decimal digits, most significant first, after a minus
  sign when it is negative.
\<close>

definition digit_char :: "nat \<Rightarrow> char" where
  "digit_char d = char_of (48 + d)"

fun digits :: "nat \<Rightarrow> string" where
  "digits n = (if n < 10 then [digit_char n] else digits (n div 10) @ [digit_char (n mod 10)])"

declare digits.simps [simp del]

definition ToString :: "int \<Rightarrow> string" where
  "ToString y = (if y < 0 then CHR ''-'' # digits (nat (- y)) else digits (nat y))"

text \<open>Reading a digit string back, used to show that \<open>digits\<close> loses nothing.\<close>

definition digit_val :: "char \<Rightarrow> nat" where
  "digit_val c = of_char c - 48"

definition number_of :: "string \<Rightarrow> nat" where
  "number_of s = foldl (\<lambda>acc c. 10 * acc + digit_val c) 0 s"

text \<open>
  The object literal \<open>config\<close>, typed \<open>DocsThemeConfig\<close>, with the fields the file sets.
  \<open>project\<close> and \<open>chat\<close> are objects with a \<open>link\<close>; \<open>footer\<close> is an object whose field
  \<open>text\<close> is called \<open>footer_text\<close> here; \<open>useNextSeoProps\<close> is a function of no argument
  that returns an object with a \<open>titleTemplate\<close>.
\<close>

record link_config =
  link :: string

record footer_config =
  footer_text :: string

record seo_props =
  titleTemplate :: string

record DocsThemeConfig =
  logo :: node
  project :: link_config
  chat :: link_config
  docsRepositoryBase :: string
  footer :: footer_config
  head :: node
  useNextSeoProps :: "unit \<Rightarrow> seo_props"

text \<open>
  The module reads the system clock once, when it is evaluated: \<open>new Date().getFullYear()\<close>.
  The clock is outside the program, so the year it gives is the parameter \<open>fullYear\<close> of
  the model; everything else in the object is a literal.
\<close>

definition config :: "int \<Rightarrow> DocsThemeConfig" where
  "config fullYear =
     \<lparr>logo = Element Image
               [(''src'', Str ''/logo.png''), (''width'', Str ''120''),
                (''height'', Str ''50''), (''alt'', Str ''ORX API Logo'')] [],
      project = \<lparr>link = ''https://github.com/ndcsol''\<rparr>,
      chat = \<lparr>link = ''https://discord.com''\<rparr>,
      docsRepositoryBase = ''https://github.com/ndcsol/orx-docs'',
      footer = \<lparr>footer_text = ''ORX Travel API '' @ ToString fullYear\<rparr>,
      head = Fragment
               [Element (Intrinsic ''link'')
                  [(''rel'', Str ''icon''), (''href'', Str ''/favicon.png'')] [],
                Element (Intrinsic ''meta'')
                  [(''name'', Str ''viewport''),
                   (''content'', Str ''width=device-width, initial-scale=1'')] [],
                Element (Intrinsic ''meta'')
                  [(''name'', Str ''description''),
                   (''content'', Str ''ORX API Documentation'')] []],
      useNextSeoProps = (\<lambda>_. \<lparr>titleTemplate = ''%s - ORX API''\<rparr>)\<rparr>"

section \<open>Properties of LinkCard\<close>

text \<open>
  C8. For every path and title (and every icon, given or omitted), \<open>LinkCard\<close> renders a
  \<open>Cards\<close> container that holds exactly one child; that child is a \<open>Card\<close> whose \<open>href\<close>
  is the given path and whose \<open>title\<close> is the given title, and the only thing inside the
  card is the empty fragment \<open><></>\<close>, which has no children.
\<close>

theorem LinkCard_single_card:
  "\<exists>card. type_of (LinkCard \<lparr>icon = i, path = p, title = t\<rparr>) = Some Cards
        \<and> children (LinkCard \<lparr>icon = i, path = p, title = t\<rparr>) = [card]
        \<and> type_of card = Some Card
        \<and> attr ''href'' card = Some (Str p)
        \<and> attr ''title'' card = Some (Str t)
        \<and> children card = [Fragment []]
        \<and> concat (map children (children card)) = []"
  by (simp add: LinkCard_def Let_def)

text \<open>
  C9. When the \<open>icon\<close> prop is omitted, the \<open>icon\<close> attribute of the rendered card is
  \<open>defaultIcon\<close>, whatever the path and the title are; when an icon is given, the card gets
  that icon instead. \<open>defaultIcon\<close> is the fixed \<open>svg\<close> element whose single \<open>path\<close> child
  draws the chevron. (That \<open>icon\<close> is the only optional prop is the type of
  \<open>LinkCardProps\<close>: \<open>path\<close> and \<open>title\<close> are plain strings.)
\<close>

theorem LinkCard_default_icon:
  "map (attr ''icon'') (children (LinkCard \<lparr>icon = None, path = p, title = t\<rparr>))
     = [Some (Node defaultIcon)]
   \<and> map (attr ''icon'') (children (LinkCard \<lparr>icon = Some i, path = p, title = t\<rparr>))
     = [Some (Node i)]
   \<and> type_of defaultIcon = Some (Intrinsic ''svg'')
   \<and> map type_of (children defaultIcon) = [Some (Intrinsic ''path'')]
   \<and> map (attr ''d'') (children defaultIcon) = [Some (Str ''M8.25 4.5l7.5 7.5-7.5 7.5'')]"
  by (simp add: LinkCard_def Let_def defaultIcon_def)

section \<open>Rendering a year\<close>

lemma of_char_digit_char: "d < 10 \<Longrightarrow> of_char (digit_char d) = 48 + d"
  by (simp add: digit_char_def)

lemma digit_val_digit_char: "d < 10 \<Longrightarrow> digit_val (digit_char d) = d"
  by (simp add: digit_val_def digit_char_def)

lemma digit_char_not_minus: "d < 10 \<Longrightarrow> digit_char d \<noteq> CHR ''-''"
proof
  assume d: "d < 10" and eq: "digit_char d = CHR ''-''"
  have "(of_char (digit_char d) :: nat) = 48 + d" using d by (rule of_char_digit_char)
  with eq show False by simp
qed

lemma number_of_snoc: "number_of (s @ [c]) = 10 * number_of s + digit_val c"
  by (simp add: number_of_def)

lemma number_of_digits: "number_of (digits n) = n"
proof (induction n rule: digits.induct)
  case (1 n)
  show ?case
  proof (cases "n < 10")
    case True
    then show ?thesis
      by (subst digits.simps) (simp add: number_of_def digit_val_digit_char)
  next
    case False
    then have "number_of (digits (n div 10)) = n div 10" using 1 by simp
    with False show ?thesis
      by (subst digits.simps) (simp add: number_of_snoc digit_val_digit_char)
  qed
qed

lemma digits_inject: "digits m = digits n \<Longrightarrow> m = n"
  by (metis number_of_digits)

lemma digits_not_Nil: "digits n \<noteq> []"
  by (subst digits.simps) simp

lemma hd_digits: "\<exists>d<10. hd (digits n) = digit_char d"
proof (induction n rule: digits.induct)
  case (1 n)
  show ?case
  proof (cases "n < 10")
    case True
    then show ?thesis by (subst digits.simps) auto
  next
    case False
    with 1 obtain d where "d < 10" "hd (digits (n div 10)) = digit_char d" by auto
    with False show ?thesis
      by (subst digits.simps) (auto simp add: digits_not_Nil)
  qed
qed

lemma minus_digits_neq_digits: "CHR ''-'' # digits m \<noteq> digits n"
proof
  assume h: "CHR ''-'' # digits m = digits n"
  obtain d where d: "d < 10" and hd: "hd (digits n) = digit_char d"
    using hd_digits by blast
  have "hd (digits n) = CHR ''-''" using h [symmetric] by simp
  with hd have "digit_char d = CHR ''-''" by simp
  with digit_char_not_minus [OF d] show False by simp
qed

lemma ToString_inject: "ToString x = ToString y \<Longrightarrow> x = y"
proof -
  assume eq: "ToString x = ToString y"
  show "x = y"
  proof (cases "x < 0")
    case xneg: True
    show ?thesis
    proof (cases "y < 0")
      case True
      with xneg eq have "nat (- x) = nat (- y)" by (simp add: ToString_def digits_inject)
      with xneg True show ?thesis by simp
    next
      case False
      with xneg eq minus_digits_neq_digits [of "nat (- x)" "nat y"] show ?thesis
        by (simp add: ToString_def)
    qed
  next
    case xpos: False
    show ?thesis
    proof (cases "y < 0")
      case True
      with xpos eq minus_digits_neq_digits [of "nat (- y)" "nat x"] show ?thesis
        by (simp add: ToString_def)
    next
      case False
      with xpos eq have "nat x = nat y" by (simp add: ToString_def digits_inject)
      with xpos False show ?thesis by simp
    qed
  qed
qed

lemma digits_four:
  assumes "1000 \<le> n" "n \<le> 9999"
  shows "digits n = [digit_char (n div 1000), digit_char (n div 100 mod 10),
                     digit_char (n div 10 mod 10), digit_char (n mod 10)]"
proof -
  have g: "n div 1000 < 10" "\<not> n div 100 < 10" "\<not> n div 10 < 10" "\<not> n < 10"
    using assms by arith+
  have a: "digits (n div 1000) = [digit_char (n div 1000)]"
    using g by (subst digits.simps) simp
  have "digits (n div 100) = digits (n div 100 div 10) @ [digit_char (n div 100 mod 10)]"
    using g by (subst digits.simps) simp
  then have b: "digits (n div 100) = [digit_char (n div 1000), digit_char (n div 100 mod 10)]"
    using a by (simp add: div_mult2_eq [symmetric])
  have "digits (n div 10) = digits (n div 10 div 10) @ [digit_char (n div 10 mod 10)]"
    using g by (subst digits.simps) simp
  then have c: "digits (n div 10) = [digit_char (n div 1000), digit_char (n div 100 mod 10),
      digit_char (n div 10 mod 10)]"
    using b by (simp add: div_mult2_eq [symmetric])
  have "digits n = digits (n div 10) @ [digit_char (n mod 10)]"
    using g by (subst digits.simps) simp
  then show ?thesis using c by simp
qed

lemma ToString_four:
  assumes "1000 \<le> y" "y \<le> 9999"
  shows "ToString y = [digit_char (nat y div 1000), digit_char (nat y div 100 mod 10),
                       digit_char (nat y div 10 mod 10), digit_char (nat y mod 10)]"
proof -
  have "1000 \<le> nat y" "nat y \<le> 9999" using assms by simp_all
  then have "digits (nat y) = [digit_char (nat y div 1000), digit_char (nat y div 100 mod 10),
                       digit_char (nat y div 10 mod 10), digit_char (nat y mod 10)]"
    by (rule digits_four)
  with assms show ?thesis by (simp add: ToString_def)
qed

section \<open>Properties of the theme configuration\<close>

text \<open>
  C10. The footer text of the configuration is \<open>"ORX Travel API "\<close> followed by the year
  the clock gave when the module was evaluated. For a four-digit year (1000 to 9999) what
  follows the prefix is exactly the year's four decimal digits. The configuration is not a
  constant: two evaluations in different years give different footer texts, hence
  different configuration objects. \<open>useNextSeoProps\<close> does not depend on the year and
  returns \<open>{ titleTemplate: "%s - ORX API" }\<close> on every call.
\<close>

theorem config_footer_year:
  "footer_text (footer (config y)) = ''ORX Travel API '' @ ToString y
   \<and> (1000 \<le> y \<and> y \<le> 9999 \<longrightarrow>
        footer_text (footer (config y)) =
          ''ORX Travel API '' @ [digit_char (nat y div 1000), digit_char (nat y div 100 mod 10),
                                 digit_char (nat y div 10 mod 10), digit_char (nat y mod 10)])
   \<and> (y \<noteq> y' \<longrightarrow> footer_text (footer (config y)) \<noteq> footer_text (footer (config y'))
                 \<and> config y \<noteq> config y')
   \<and> useNextSeoProps (config y) u = \<lparr>titleTemplate = ''%s - ORX API''\<rparr>
   \<and> useNextSeoProps (config y) = useNextSeoProps (config y')"
proof -
  have text_eq: "footer_text (footer (config z)) = ''ORX Travel API '' @ ToString z" for z
    by (simp add: config_def)
  have four: "1000 \<le> y \<and> y \<le> 9999 \<longrightarrow>
        footer_text (footer (config y)) =
          ''ORX Travel API '' @ [digit_char (nat y div 1000), digit_char (nat y div 100 mod 10),
                                 digit_char (nat y div 10 mod 10), digit_char (nat y mod 10)]"
    using ToString_four [of y] by (simp only: text_eq) simp
  have differ: "footer_text (footer (config y)) \<noteq> footer_text (footer (config y'))"
    if "y \<noteq> y'"
  proof
    assume "footer_text (footer (config y)) = footer_text (footer (config y'))"
    then have "ToString y = ToString y'" by (simp only: text_eq) simp
    then have "y = y'" by (rule ToString_inject)
    with that show False by simp
  qed
  have differ': "config y \<noteq> config y'" if "y \<noteq> y'"
    using differ [OF that] by auto
  have seo: "useNextSeoProps (config z) = (\<lambda>_. \<lparr>titleTemplate = ''%s - ORX API''\<rparr>)" for z
    by (simp add: config_def)
  show ?thesis
    using text_eq [of y] four differ differ' by (simp add: seo)
qed

theorem config_footer_year_witness:
  "footer_text (footer (config 2024)) = ''ORX Travel API 2024''
   \<and> footer_text (footer (config 2025)) = ''ORX Travel API 2025''
   \<and> (1000 :: int) \<le> 2024 \<and> (2024 :: int) \<le> 9999
   \<and> (2024 :: int) \<noteq> 2025
   \<and> footer_text (footer (config 2024)) \<noteq> footer_text (footer (config 2025))
   \<and> config 2024 \<noteq> config 2025
   \<and> useNextSeoProps (config 2024) () = \<lparr>titleTemplate = ''%s - ORX API''\<rparr>
   \<and> useNextSeoProps (config 2024) = useNextSeoProps (config 2025)"
proof -
  have t: "ToString 2024 = ''2024''" "ToString 2025 = ''2025''"
    by code_simp+
  show ?thesis
    using config_footer_year [of 2024 2025 "()"] config_footer_year [of 2025 2024 "()"]
    by (simp add: t)
qed

end
